theory Spec2Isabelle
  imports Complex_Main "HOL-Library.Word" "HOL-Library.AList"
begin

section \<open>The JavaScript values the validation module works on\<close>

subsection \<open>Strings\<close>

text \<open>
  A JavaScript string is a sequence of 16-bit code units. \<open>length\<close>, \<open>===\<close>, \<open>trim\<close> and
  the regular expressions of the module (none has the \<open>u\<close> flag) all work on code units.
  String literals of the source are written \<open>js ''...''\<close>.
\<close>

type_synonym jsstring = "16 word list"

definition js :: "string \<Rightarrow> jsstring" where
  "js s = map of_char s"

text \<open>
  \<open>String.prototype.trim\<close> removes the code units of WhiteSpace and LineTerminator from
  both ends; the class \<open>\s\<close> of a regular expression is the same set.
\<close>

definition isWhiteSpace :: "16 word \<Rightarrow> bool" where
  "isWhiteSpace c = (c \<in> set [0x0009, 0x000A, 0x000B, 0x000C, 0x000D, 0x0020, 0x00A0, 0x1680,
      0x2000, 0x2001, 0x2002, 0x2003, 0x2004, 0x2005, 0x2006, 0x2007, 0x2008, 0x2009, 0x200A,
      0x2028, 0x2029, 0x202F, 0x205F, 0x3000, 0xFEFF])"

definition trim :: "jsstring \<Rightarrow> jsstring" where
  "trim s = rev (dropWhile isWhiteSpace (rev (dropWhile isWhiteSpace s)))"

text \<open>
  The decimal digits of a natural number. The template literal of \<open>minLength\<close> prints
  its parameter \<open>min\<close> (called \<open>n\<close> below) so when \<open>min\<close> is a natural number below
  \<open>10^21\<close>; from there on a number prints in exponent form, which is not modelled. The
  rule tables call \<open>minLength\<close> with 2, 3, 5 and 8, and always with a message, so that
  the text made here is never a result of \<open>validate\<close>.
\<close>

fun toString :: "nat \<Rightarrow> jsstring" where
  "toString n = (if n < 10 then [of_nat (48 + n)]
                 else toString (n div 10) @ [of_nat (48 + n mod 10)])"

declare toString.simps [simp del]

subsection \<open>Regular expressions\<close>

text \<open>
  The two regular expressions of the module are anchored at both ends and built from
  character classes, concatenation, \<open>+\<close> and \<open>{n}\<close>. \<open>RegExp_test r s\<close> decides whether the
  whole of \<open>s\<close> matches \<open>r\<close>, by taking the derivative of \<open>r\<close> along \<open>s\<close>.
\<close>

datatype regexp =
    Fail
  | Empty
  | Class "16 word \<Rightarrow> bool"
  | Or regexp regexp
  | Then regexp regexp
  | Many regexp

fun matchesEmpty :: "regexp \<Rightarrow> bool" where
  "matchesEmpty Fail = False"
| "matchesEmpty Empty = True"
| "matchesEmpty (Class p) = False"
| "matchesEmpty (Or r s) = (matchesEmpty r \<or> matchesEmpty s)"
| "matchesEmpty (Then r s) = (matchesEmpty r \<and> matchesEmpty s)"
| "matchesEmpty (Many r) = True"

fun after :: "16 word \<Rightarrow> regexp \<Rightarrow> regexp" where
  "after c Fail = Fail"
| "after c Empty = Fail"
| "after c (Class p) = (if p c then Empty else Fail)"
| "after c (Or r s) = Or (after c r) (after c s)"
| "after c (Then r s) =
     (if matchesEmpty r then Or (Then (after c r) s) (after c s) else Then (after c r) s)"
| "after c (Many r) = Then (after c r) (Many r)"

definition RegExp_test :: "regexp \<Rightarrow> jsstring \<Rightarrow> bool" where
  "RegExp_test r s = matchesEmpty (foldl (\<lambda>r c. after c r) r s)"

definition OneOrMore :: "regexp \<Rightarrow> regexp" where
  "OneOrMore r = Then r (Many r)"

fun Times :: "nat \<Rightarrow> regexp \<Rightarrow> regexp" where
  "Times 0 r = Empty"
| "Times (Suc n) r = Then r (Times n r)"

definition Literal :: "16 word \<Rightarrow> regexp" where
  "Literal c = Class (\<lambda>d. d = c)"

text \<open>\<open>[^\s@]\<close> and \<open>\d\<close>.\<close>

definition notSpaceOrAt :: "16 word \<Rightarrow> bool" where
  "notSpaceOrAt c = (\<not> isWhiteSpace c \<and> c \<noteq> 0x40)"

definition isDigit :: "16 word \<Rightarrow> bool" where
  "isDigit c = (0x30 \<le> c \<and> c \<le> 0x39)"

text \<open>\<open>/^[^\s@]+@[^\s@]+\.[^\s@]+$/\<close>\<close>

definition emailRegex :: regexp where
  "emailRegex =
     Then (OneOrMore (Class notSpaceOrAt))
       (Then (Literal 0x40)
         (Then (OneOrMore (Class notSpaceOrAt))
           (Then (Literal 0x2E) (OneOrMore (Class notSpaceOrAt)))))"

text \<open>\<open>/^\d{10}$/\<close>\<close>

definition phoneRegex :: regexp where
  "phoneRegex = Times 10 (Class isDigit)"

subsection \<open>Numbers\<close>

text \<open>
  A JavaScript number is an IEEE-754 double: NaN, an infinity, or a finite value, which is
  a real number (the sign of zero plays no part in a comparison). The conversion
  \<open>Number(v)\<close> of a string is a builtin of the language and not code of the module; the
  extended rule table takes it as the parameter \<open>toNumber\<close>.
\<close>

datatype number = NaN | NegInfinity | Finite real | Infinity

fun isNaN :: "number \<Rightarrow> bool" where
  "isNaN NaN = True"
| "isNaN x = False"

text \<open>\<open>x > c\<close> and \<open>x < c\<close> for a finite constant \<open>c\<close>; a comparison with NaN is false.\<close>

fun number_gt :: "number \<Rightarrow> real \<Rightarrow> bool" where
  "number_gt NaN c = False"
| "number_gt NegInfinity c = False"
| "number_gt (Finite x) c = (x > c)"
| "number_gt Infinity c = True"

fun number_lt :: "number \<Rightarrow> real \<Rightarrow> bool" where
  "number_lt NaN c = False"
| "number_lt NegInfinity c = True"
| "number_lt (Finite x) c = (x < c)"
| "number_lt Infinity c = False"

subsection \<open>Objects\<close>

text \<open>
  An object literal with string keys is the list of its own properties, in the order of
  \<open>Object.keys\<close>; its prototype is \<open>Object.prototype\<close>. Reading \<open>obj[k]\<close> finds an own
  property first and a property of \<open>Object.prototype\<close> second, and is \<open>undefined\<close>
  otherwise. The inherited properties are functions, and \<open>__proto__\<close> reads as
  \<open>Object.prototype\<close> itself: all are truthy and none is iterable.
\<close>

type_synonym 'a object = "(jsstring \<times> 'a) list"

definition Object_prototype :: "jsstring list" where
  "Object_prototype = map js
     [''constructor'', ''__defineGetter__'', ''__defineSetter__'', ''hasOwnProperty'',
      ''__lookupGetter__'', ''__lookupSetter__'', ''isPrototypeOf'', ''propertyIsEnumerable'',
      ''toString'', ''valueOf'', ''__proto__'', ''toLocaleString'']"

datatype 'a property = Undefined | Own 'a | Inherited

definition getProperty :: "'a object \<Rightarrow> jsstring \<Rightarrow> 'a property" where
  "getProperty obj k =
     (case map_of obj k of
        Some v \<Rightarrow> Own v
      | None \<Rightarrow> if k \<in> set Object_prototype then Inherited else Undefined)"

text \<open>
  Writing \<open>obj[k] = v\<close> replaces the own property \<open>k\<close> or appends it. The one key that
  does not become an own property is \<open>__proto__\<close>: the assignment runs the setter of
  \<open>Object.prototype\<close>, which changes the prototype of \<open>obj\<close> and leaves its own
  properties as they are.
\<close>

definition setProperty :: "'a object \<Rightarrow> jsstring \<Rightarrow> 'a \<Rightarrow> 'a object" where
  "setProperty obj k v = (if k = js ''__proto__'' then obj else AList.update k v obj)"

text \<open>The exceptions of the language that the module can raise.\<close>

datatype exn = TypeError

section \<open>The validation module\<close>

subsection \<open>Types and rules\<close>

record ValidationResult =
  isValid :: bool
  error :: "jsstring option"

text \<open>A rule of the table: \<open>{validate, errorMessage}\<close>.\<close>

record Rule =
  rule_validate :: "jsstring \<Rightarrow> jsstring option \<Rightarrow> bool"
  errorMessage :: jsstring

text \<open>
  The rule constructors. A missing \<open>message\<close> argument is \<open>None\<close>; \<open>isRequired\<close> and
  \<open>isEmail\<close> have default parameters, \<open>minLength\<close> replaces a missing or empty message
  (\<open>message || ...\<close>).
\<close>

definition isRequired :: "jsstring option \<Rightarrow> Rule" where
  "isRequired message =
     \<lparr>rule_validate = (\<lambda>value compareValue. length (trim value) > 0),
      errorMessage = (case message of None \<Rightarrow> js ''This field is required'' | Some m \<Rightarrow> m)\<rparr>"

definition minLength :: "nat \<Rightarrow> jsstring option \<Rightarrow> Rule" where
  "minLength n message =
     \<lparr>rule_validate = (\<lambda>value compareValue. length value \<ge> n),
      errorMessage =
        (case message of
           Some m \<Rightarrow> if m \<noteq> [] then m
                     else js ''Must be at least '' @ toString n @ js '' characters''
         | None \<Rightarrow> js ''Must be at least '' @ toString n @ js '' characters'')\<rparr>"

definition isEmail :: "jsstring option \<Rightarrow> Rule" where
  "isEmail message =
     \<lparr>rule_validate = (\<lambda>value compareValue. RegExp_test emailRegex value),
      errorMessage = (case message of None \<Rightarrow> js ''Invalid email address'' | Some m \<Rightarrow> m)\<rparr>"

text \<open>The rule table of \<open>validation/validation.ts\<close>.\<close>

definition validationRules :: "Rule list object" where
  "validationRules =
     [(js ''username'',
        [isRequired (Some (js ''Username is required'')),
         minLength 3 (Some (js ''Username must be at least 3 characters''))]),
      (js ''email'',
        [isRequired (Some (js ''Email is required'')),
         isEmail (Some (js ''Please enter a valid email address''))]),
      (js ''password'',
        [isRequired (Some (js ''Password is required'')),
         minLength 8 (Some (js ''Password must be at least 8 characters''))]),
      (js ''confirmPassword'',
        [isRequired (Some (js ''Please confirm your password''))]),
      (js ''name'',
        [isRequired (Some (js ''Name is required'')),
         minLength 2 (Some (js ''Name must be at least 2 characters''))])]"

text \<open>
  The rule table of the extended variant of the module, with \<open>phone\<close>, \<open>address\<close> and
  \<open>age\<close>. The rule of \<open>age\<close> is
  \<open>!isNaN(Number(v)) && Number(v) > 0 && Number(v) < 120\<close>.
\<close>

definition validationRules_ext :: "(jsstring \<Rightarrow> number) \<Rightarrow> Rule list object" where
  "validationRules_ext toNumber =
     [(js ''username'',
        [isRequired (Some (js ''Username is required'')),
         minLength 3 (Some (js ''Username must be at least 3 characters''))]),
      (js ''email'',
        [isRequired (Some (js ''Email is required'')),
         isEmail (Some (js ''Please enter a valid email address''))]),
      (js ''password'',
        [isRequired (Some (js ''Password is required'')),
         minLength 8 (Some (js ''Password must be at least 8 characters''))]),
      (js ''confirmPassword'',
        [isRequired (Some (js ''Please confirm your password''))]),
      (js ''name'',
        [isRequired (Some (js ''Name is required'')),
         minLength 2 (Some (js ''Name must be at least 2 characters''))]),
      (js ''phone'',
        [isRequired (Some (js ''Phone number is required'')),
         \<lparr>rule_validate = (\<lambda>v compareValue. RegExp_test phoneRegex v),
          errorMessage = js ''Phone number must be 10 digits''\<rparr>]),
      (js ''address'',
        [isRequired (Some (js ''Address is required'')),
         minLength 5 (Some (js ''Address must be at least 5 characters''))]),
      (js ''age'',
        [isRequired (Some (js ''Age is required'')),
         \<lparr>rule_validate = (\<lambda>v compareValue.
            \<not> isNaN (toNumber v) \<and> number_gt (toNumber v) 0 \<and> number_lt (toNumber v) 120),
          errorMessage = js ''Please enter a valid age''\<rparr>])]"

subsection \<open>validate\<close>

text \<open>The loop \<open>for (const rule of rules)\<close> over an array of rules.\<close>

fun applyRules :: "Rule list \<Rightarrow> jsstring \<Rightarrow> jsstring option \<Rightarrow> ValidationResult" where
  "applyRules [] value compareValue = \<lparr>isValid = True, error = None\<rparr>"
| "applyRules (rule # rules) value compareValue =
     (if \<not> rule_validate rule value compareValue
      then \<lparr>isValid = False, error = Some (errorMessage rule)\<rparr>
      else applyRules rules value compareValue)"

text \<open>
  The body of \<open>validate\<close>, which is the same text in both variants, over the rule table
  it reads. \<open>type\<close> is whatever string the caller passes: the annotation
  \<open>ValidationType\<close> is erased when the module runs. \<open>rules\<close> is \<open>validationRules[type]\<close>;
  the guard \<open>!rules\<close> holds for \<open>undefined\<close> only, and \<open>for ... of\<close> over an inherited
  property, which is not iterable, throws a TypeError.
\<close>

definition validate_in ::
  "Rule list object \<Rightarrow> jsstring \<Rightarrow> jsstring \<Rightarrow> jsstring option \<Rightarrow> exn + ValidationResult" where
  "validate_in table type value compareValue =
     (case getProperty table type of
        Undefined \<Rightarrow>
          Inr \<lparr>isValid = False, error = Some (js ''Unknown validation type: '' @ type)\<rparr>
      | rules \<Rightarrow>
          if type = js ''confirmPassword'' \<and> compareValue \<noteq> None then
            (if length (trim value) = 0 then
               Inr \<lparr>isValid = False, error = Some (js ''Please confirm your password'')\<rparr>
             else if Some value \<noteq> compareValue then
               Inr \<lparr>isValid = False, error = Some (js ''Passwords do not match'')\<rparr>
             else Inr \<lparr>isValid = True, error = None\<rparr>)
          else
            (case rules of
               Own rs \<Rightarrow> Inr (applyRules rs value compareValue)
             | _ \<Rightarrow> Inl TypeError))"

definition validate :: "jsstring \<Rightarrow> jsstring \<Rightarrow> jsstring option \<Rightarrow> exn + ValidationResult" where
  "validate = validate_in validationRules"

definition validate_ext ::
  "(jsstring \<Rightarrow> number) \<Rightarrow> jsstring \<Rightarrow> jsstring \<Rightarrow> jsstring option \<Rightarrow> exn + ValidationResult" where
  "validate_ext toNumber = validate_in (validationRules_ext toNumber)"

subsection \<open>getValidationType\<close>

definition getValidationType :: "jsstring \<Rightarrow> jsstring" where
  "getValidationType fieldName =
     (if fieldName = js ''username'' then js ''username''
      else if fieldName = js ''email'' then js ''email''
      else if fieldName = js ''password'' then js ''password''
      else if fieldName = js ''confirmPassword'' then js ''confirmPassword''
      else js ''name'')"

definition getValidationType_ext :: "jsstring \<Rightarrow> jsstring" where
  "getValidationType_ext fieldName =
     (if fieldName = js ''username'' then js ''username''
      else if fieldName = js ''email'' then js ''email''
      else if fieldName = js ''password'' then js ''password''
      else if fieldName = js ''confirmPassword'' then js ''confirmPassword''
      else if fieldName = js ''phone'' then js ''phone''
      else if fieldName = js ''address'' then js ''address''
      else if fieldName = js ''age'' then js ''age''
      else js ''name'')"

subsection \<open>validateForm and isFormValid\<close>

text \<open>\<open>results[key] = validate(...)\<close>: an exception of the call leaves the function.\<close>

definition assign ::
  "ValidationResult object \<Rightarrow> jsstring \<Rightarrow> exn + ValidationResult \<Rightarrow> exn + ValidationResult object"
  where
  "assign results key r =
     (case r of Inl e \<Rightarrow> Inl e | Inr v \<Rightarrow> Inr (setProperty results key v))"

definition andThen :: "exn + 'a \<Rightarrow> ('a \<Rightarrow> exn + 'b) \<Rightarrow> exn + 'b" where
  "andThen x f = (case x of Inl e \<Rightarrow> Inl e | Inr a \<Rightarrow> f a)"

text \<open>
  \<open>validateForm\<close> of \<open>validation/validation.ts\<close>: four statements, one for each of
  \<open>username\<close>, \<open>email\<close>, \<open>password\<close> and \<open>confirmPassword\<close>. \<open>Object.prototype\<close> has no
  property of these names, so \<open>formData.username\<close> is the own property or \<open>undefined\<close>.
\<close>

definition validateForm :: "jsstring object \<Rightarrow> exn + ValidationResult object" where
  "validateForm formData =
     andThen (Inr []) (\<lambda>results.
     andThen (case map_of formData (js ''username'') of
                None \<Rightarrow> Inr results
              | Some username \<Rightarrow>
                  assign results (js ''username'') (validate (js ''username'') username None))
       (\<lambda>results.
     andThen (case map_of formData (js ''email'') of
                None \<Rightarrow> Inr results
              | Some email \<Rightarrow>
                  assign results (js ''email'') (validate (js ''email'') email None))
       (\<lambda>results.
     andThen (case map_of formData (js ''password'') of
                None \<Rightarrow> Inr results
              | Some password \<Rightarrow>
                  assign results (js ''password'') (validate (js ''password'') password None))
       (\<lambda>results.
     andThen (case map_of formData (js ''confirmPassword'') of
                None \<Rightarrow> Inr results
              | Some confirmPassword \<Rightarrow>
                  assign results (js ''confirmPassword'')
                    (validate (js ''confirmPassword'') confirmPassword
                       (map_of formData (js ''password''))))
       Inr))))"

text \<open>
  \<open>validateForm\<close> of the extended variant: \<open>Object.keys(formData).forEach\<close>. The keys are
  own properties, so \<open>formData[key]\<close> is a string; were it \<open>undefined\<close>, \<open>value.trim()\<close>
  would throw.
\<close>

fun forEach :: "('k \<Rightarrow> 's \<Rightarrow> exn + 's) \<Rightarrow> 'k list \<Rightarrow> 's \<Rightarrow> exn + 's" where
  "forEach f [] s = Inr s"
| "forEach f (k # ks) s = (case f k s of Inl e \<Rightarrow> Inl e | Inr s' \<Rightarrow> forEach f ks s')"

definition validateForm_ext ::
  "(jsstring \<Rightarrow> number) \<Rightarrow> jsstring object \<Rightarrow> exn + ValidationResult object" where
  "validateForm_ext toNumber formData =
     forEach
       (\<lambda>key results.
          let type = getValidationType_ext key;
              compareValue =
                (if type = js ''confirmPassword'' then map_of formData (js ''password'')
                 else None)
          in case map_of formData key of
               None \<Rightarrow> Inl TypeError
             | Some value \<Rightarrow> assign results key (validate_ext toNumber type value compareValue))
       (map fst formData) []"

text \<open>\<open>Object.values(validationResults).every((result) => result.isValid)\<close>\<close>

definition isFormValid :: "ValidationResult object \<Rightarrow> bool" where
  "isFormValid validationResults = list_all isValid (map snd validationResults)"

section \<open>Properties\<close>

subsection \<open>String literals\<close>

lemma unat_of_char: "unat (of_char c :: 16 word) = of_char c"
proof -
  have "(of_char c :: 16 word) = of_nat (of_char c)"
    by (simp add: of_nat_of_char)
  then have "unat (of_char c :: 16 word) = of_char c mod 2 ^ 16"
    by (simp add: unat_of_nat del: of_nat_of_char)
  moreover have "(of_char c :: nat) < 256"
    by simp
  ultimately show ?thesis
    by simp
qed

lemma of_char_word_eq_iff: "(of_char c :: 16 word) = of_char d \<longleftrightarrow> c = d"
  by (metis unat_of_char of_char_eq_iff)

lemma js_eq_iff [simp]: "js a = js b \<longleftrightarrow> a = b"
  unfolding js_def by (simp add: inj_map_eq_map inj_on_def of_char_word_eq_iff)

lemma js_eq_Nil [simp]: "js a = [] \<longleftrightarrow> a = []"
  by (simp add: js_def)

lemma js_Nil [simp]: "js [] = []"
  by (simp add: js_def)

lemma length_js [simp]: "length (js a) = length a"
  by (simp add: js_def)

lemma trim_Nil [simp]: "trim [] = []"
  by (simp add: trim_def)

lemma trim_literals:
  "trim (js ''abc'') = js ''abc''"
  "trim (js ''ab'') = js ''ab''"
  "trim (js ''30'') = js ''30''"
  "trim (js ''150'') = js ''150''"
  by (simp_all add: trim_def js_def isWhiteSpace_def)

subsection \<open>The rule loop and the table lookup\<close>

lemmas table_defs =
  validationRules_def validationRules_ext_def getProperty_def Object_prototype_def

text \<open>The loop returns at the first rule that fails.\<close>

lemma applyRules_find:
  "applyRules rules v cv =
     (case find (\<lambda>rule. \<not> rule_validate rule v cv) rules of
        None \<Rightarrow> \<lparr>isValid = True, error = None\<rparr>
      | Some rule \<Rightarrow> \<lparr>isValid = False, error = Some (errorMessage rule)\<rparr>)"
  by (induction rules) simp_all

lemma validate_in_Own:
  assumes "map_of table t = Some rules"
    and "\<not> (t = js ''confirmPassword'' \<and> cv \<noteq> None)"
  shows "validate_in table t v cv = Inr (applyRules rules v cv)"
  using assms by (auto simp add: validate_in_def getProperty_def)

text \<open>
  A type that is neither a key of the table nor a property of \<open>Object.prototype\<close> gets
  the result of the guard \<open>!rules\<close>.
\<close>

lemma validate_in_Undefined:
  assumes "t \<notin> fst ` set table" and "t \<notin> set Object_prototype"
  shows "validate_in table t v cv =
    Inr \<lparr>isValid = False, error = Some (js ''Unknown validation type: '' @ t)\<rparr>"
  using assms by (simp add: validate_in_def getProperty_def map_of_eq_None_iff [THEN iffD2])

subsection \<open>The module on the examples of its specification\<close>

lemma validate_examples:
  "validate (js ''email'') (js ''a@b.co'') None = Inr \<lparr>isValid = True, error = None\<rparr>"
  "validate (js ''email'') (js ''not-an-email'') None =
     Inr \<lparr>isValid = False, error = Some (js ''Please enter a valid email address'')\<rparr>"
  "validate (js ''password'') (js ''short'') None =
     Inr \<lparr>isValid = False, error = Some (js ''Password must be at least 8 characters'')\<rparr>"
  "validate (js ''password'') (js ''longenough'') None = Inr \<lparr>isValid = True, error = None\<rparr>"
  by code_simp+

lemma validateForm_example:
  "validateForm
     [(js ''username'', js ''ab''), (js ''email'', js ''x@y.com''),
      (js ''password'', js ''longenough''), (js ''confirmPassword'', js ''longenough'')] =
   Inr [(js ''username'',
          \<lparr>isValid = False, error = Some (js ''Username must be at least 3 characters'')\<rparr>),
        (js ''email'', \<lparr>isValid = True, error = None\<rparr>),
        (js ''password'', \<lparr>isValid = True, error = None\<rparr>),
        (js ''confirmPassword'', \<lparr>isValid = True, error = None\<rparr>)]"
  by code_simp

text \<open>
  An own key \<open>__proto__\<close> of \<open>formData\<close> (as \<open>JSON.parse\<close> creates it) leaves no entry in the
  result of the extended \<open>validateForm\<close>.
\<close>

lemma validateForm_ext_proto_example:
  "validateForm_ext (\<lambda>v. NaN) [(js ''__proto__'', js ''xy''), (js ''nickname'', js ''xy'')] =
   Inr [(js ''nickname'', \<lparr>isValid = True, error = None\<rparr>)]"
  by code_simp

subsection \<open>validate\<close>

text \<open>
  C2: with a defined \<open>compareValue\<close>, \<open>validate("confirmPassword", value, compareValue)\<close>
  fails with "Please confirm your password" when \<open>value\<close> trimmed is empty, otherwise
  fails with "Passwords do not match" when \<open>value\<close> differs from \<open>compareValue\<close>, and
  otherwise succeeds; in both variants of the module.
\<close>

theorem validate_confirmPassword_compare:
  "validate (js ''confirmPassword'') v (Some cv) =
     Inr (if trim v = [] then
            \<lparr>isValid = False, error = Some (js ''Please confirm your password'')\<rparr>
          else if v \<noteq> cv then
            \<lparr>isValid = False, error = Some (js ''Passwords do not match'')\<rparr>
          else \<lparr>isValid = True, error = None\<rparr>) \<and>
   validate_ext toNumber (js ''confirmPassword'') v (Some cv) =
     Inr (if trim v = [] then
            \<lparr>isValid = False, error = Some (js ''Please confirm your password'')\<rparr>
          else if v \<noteq> cv then
            \<lparr>isValid = False, error = Some (js ''Passwords do not match'')\<rparr>
          else \<lparr>isValid = True, error = None\<rparr>)"
  by (simp add: validate_def validate_ext_def validate_in_def table_defs)

theorem validate_confirmPassword_compare_witness:
  "validate (js ''confirmPassword'') (js ''abc'') (Some (js ''abc'')) =
     Inr \<lparr>isValid = True, error = None\<rparr> \<and>
   validate (js ''confirmPassword'') (js ''abc'') (Some (js ''xyz'')) =
     Inr \<lparr>isValid = False, error = Some (js ''Passwords do not match'')\<rparr> \<and>
   validate (js ''confirmPassword'') (js '''') (Some (js ''xyz'')) =
     Inr \<lparr>isValid = False, error = Some (js ''Please confirm your password'')\<rparr>"
  using validate_confirmPassword_compare [of "js ''abc''" "js ''abc''"]
    validate_confirmPassword_compare [of "js ''abc''" "js ''xyz''"]
    validate_confirmPassword_compare [of "js ''''" "js ''xyz''"]
  by (simp add: trim_literals)

text \<open>
  C3: without a \<open>compareValue\<close>, \<open>validate("confirmPassword", value)\<close> runs the rule list
  of \<open>confirmPassword\<close>, whose only rule is non-emptiness: it succeeds iff \<open>value\<close>
  trimmed is non-empty and fails with "Please confirm your password" otherwise. No
  comparison with a password takes place.
\<close>

theorem validate_confirmPassword_alone:
  "validate (js ''confirmPassword'') v None =
     Inr (applyRules [isRequired (Some (js ''Please confirm your password''))] v None) \<and>
   validate (js ''confirmPassword'') v None =
     Inr (if trim v \<noteq> [] then \<lparr>isValid = True, error = None\<rparr>
          else \<lparr>isValid = False, error = Some (js ''Please confirm your password'')\<rparr>) \<and>
   validate_ext toNumber (js ''confirmPassword'') v None =
     Inr (applyRules [isRequired (Some (js ''Please confirm your password''))] v None) \<and>
   validate_ext toNumber (js ''confirmPassword'') v None =
     Inr (if trim v \<noteq> [] then \<lparr>isValid = True, error = None\<rparr>
          else \<lparr>isValid = False, error = Some (js ''Please confirm your password'')\<rparr>)"
  by (simp add: validate_def validate_ext_def validate_in_def table_defs isRequired_def)

theorem validate_confirmPassword_alone_witness:
  "validate (js ''confirmPassword'') (js ''abc'') None = Inr \<lparr>isValid = True, error = None\<rparr> \<and>
   validate (js ''confirmPassword'') (js '''') None =
     Inr \<lparr>isValid = False, error = Some (js ''Please confirm your password'')\<rparr>"
  using validate_confirmPassword_alone [of "js ''abc''"]
    validate_confirmPassword_alone [of "js ''''"]
  by (simp add: trim_literals isRequired_def)

text \<open>
  C4: for a type of the rule table, outside the special case of \<open>confirmPassword\<close> with
  a \<open>compareValue\<close>, \<open>validate\<close> runs the rules of the type in the order of the table and
  fails with the message of the first rule whose predicate fails; when no predicate
  fails it succeeds. In both variants of the module.
\<close>

theorem validate_first_failing_rule:
  assumes "\<not> (type = js ''confirmPassword'' \<and> compareValue \<noteq> None)"
  shows "(map_of validationRules type = Some rules \<longrightarrow>
          validate type value compareValue =
            Inr (case find (\<lambda>rule. \<not> rule_validate rule value compareValue) rules of
                   None \<Rightarrow> \<lparr>isValid = True, error = None\<rparr>
                 | Some rule \<Rightarrow> \<lparr>isValid = False, error = Some (errorMessage rule)\<rparr>)) \<and>
         (map_of (validationRules_ext toNumber) type = Some rules \<longrightarrow>
          validate_ext toNumber type value compareValue =
            Inr (case find (\<lambda>rule. \<not> rule_validate rule value compareValue) rules of
                   None \<Rightarrow> \<lparr>isValid = True, error = None\<rparr>
                 | Some rule \<Rightarrow> \<lparr>isValid = False, error = Some (errorMessage rule)\<rparr>))"
  using assms validate_in_Own [of _ "type" rules compareValue "value"]
  by (simp add: validate_def validate_ext_def applyRules_find)

theorem validate_first_failing_rule_witness:
  "validate (js ''username'') (js ''ab'') None =
     Inr \<lparr>isValid = False, error = Some (js ''Username must be at least 3 characters'')\<rparr> \<and>
   validate_ext (\<lambda>v. NaN) (js ''username'') (js ''ab'') None =
     Inr \<lparr>isValid = False, error = Some (js ''Username must be at least 3 characters'')\<rparr>"
  using validate_first_failing_rule [of "js ''username''" None
      "[isRequired (Some (js ''Username is required'')),
        minLength 3 (Some (js ''Username must be at least 3 characters''))]"
      "js ''ab''" "\<lambda>v. NaN"]
  by (simp add: validationRules_def validationRules_ext_def isRequired_def minLength_def
      trim_literals)

text \<open>
  C6: for every type of the rule table, \<open>validate(type, "")\<close> without a \<open>compareValue\<close>
  fails with the message of the "required" rule of the type. The types of the table are
  the five of \<open>validation/validation.ts\<close> and the eight of the extended variant.
\<close>

theorem validate_empty_value:
  "map fst validationRules =
     map js [''username'', ''email'', ''password'', ''confirmPassword'', ''name''] \<and>
   validate (js ''username'') (js '''') None =
     Inr \<lparr>isValid = False, error = Some (js ''Username is required'')\<rparr> \<and>
   validate (js ''email'') (js '''') None =
     Inr \<lparr>isValid = False, error = Some (js ''Email is required'')\<rparr> \<and>
   validate (js ''password'') (js '''') None =
     Inr \<lparr>isValid = False, error = Some (js ''Password is required'')\<rparr> \<and>
   validate (js ''confirmPassword'') (js '''') None =
     Inr \<lparr>isValid = False, error = Some (js ''Please confirm your password'')\<rparr> \<and>
   validate (js ''name'') (js '''') None =
     Inr \<lparr>isValid = False, error = Some (js ''Name is required'')\<rparr> \<and>
   map fst (validationRules_ext toNumber) =
     map js [''username'', ''email'', ''password'', ''confirmPassword'', ''name'',
             ''phone'', ''address'', ''age''] \<and>
   validate_ext toNumber (js ''username'') (js '''') None =
     Inr \<lparr>isValid = False, error = Some (js ''Username is required'')\<rparr> \<and>
   validate_ext toNumber (js ''email'') (js '''') None =
     Inr \<lparr>isValid = False, error = Some (js ''Email is required'')\<rparr> \<and>
   validate_ext toNumber (js ''password'') (js '''') None =
     Inr \<lparr>isValid = False, error = Some (js ''Password is required'')\<rparr> \<and>
   validate_ext toNumber (js ''confirmPassword'') (js '''') None =
     Inr \<lparr>isValid = False, error = Some (js ''Please confirm your password'')\<rparr> \<and>
   validate_ext toNumber (js ''name'') (js '''') None =
     Inr \<lparr>isValid = False, error = Some (js ''Name is required'')\<rparr> \<and>
   validate_ext toNumber (js ''phone'') (js '''') None =
     Inr \<lparr>isValid = False, error = Some (js ''Phone number is required'')\<rparr> \<and>
   validate_ext toNumber (js ''address'') (js '''') None =
     Inr \<lparr>isValid = False, error = Some (js ''Address is required'')\<rparr> \<and>
   validate_ext toNumber (js ''age'') (js '''') None =
     Inr \<lparr>isValid = False, error = Some (js ''Age is required'')\<rparr>"
  by (simp add: validate_def validate_ext_def validate_in_def table_defs isRequired_def)

text \<open>
  C7: \<open>validate(type, value)\<close> returns the failure "Unknown validation type: <type>" for
  every string \<open>type\<close> that is not a key of the rule table, and never throws. The
  module does not do so for \<open>type = "toString"\<close>: \<open>validationRules["toString"]\<close> is the
  function inherited from \<open>Object.prototype\<close>, the guard \<open>!rules\<close> lets it pass, and the
  loop \<open>for (const rule of rules)\<close> throws a TypeError.
\<close>

theorem validate_toString_throws:
  "js ''toString'' \<notin> fst ` set validationRules \<and>
   validate (js ''toString'') (js ''x'') None = Inl TypeError \<and>
   js ''toString'' \<notin> fst ` set (validationRules_ext toNumber) \<and>
   validate_ext toNumber (js ''toString'') (js ''x'') None = Inl TypeError"
  by (simp add: validate_def validate_ext_def validate_in_def table_defs)

text \<open>
  C8: in the extended variant, \<open>validate("age", value)\<close> succeeds iff \<open>value\<close> trimmed
  is non-empty, \<open>Number(value)\<close> is not NaN, and the number is greater than 0 and less
  than 120. \<open>Number\<close> is the conversion of the language, the parameter \<open>toNumber\<close>; where
  it maps "150" to 150, "abc" to NaN and "30" to 30, the first two values fail and the
  third succeeds.
\<close>

theorem validate_age:
  "(validate_ext toNumber (js ''age'') value None = Inr \<lparr>isValid = True, error = None\<rparr> \<longleftrightarrow>
      trim value \<noteq> [] \<and> \<not> isNaN (toNumber value) \<and>
      number_gt (toNumber value) 0 \<and> number_lt (toNumber value) 120) \<and>
   (\<exists>result. validate_ext toNumber (js ''age'') value None = Inr result \<and>
      (isValid result \<longleftrightarrow>
         trim value \<noteq> [] \<and> \<not> isNaN (toNumber value) \<and>
         number_gt (toNumber value) 0 \<and> number_lt (toNumber value) 120)) \<and>
   (toNumber (js ''150'') = Finite 150 \<longrightarrow>
      validate_ext toNumber (js ''age'') (js ''150'') None =
        Inr \<lparr>isValid = False, error = Some (js ''Please enter a valid age'')\<rparr>) \<and>
   (toNumber (js ''abc'') = NaN \<longrightarrow>
      validate_ext toNumber (js ''age'') (js ''abc'') None =
        Inr \<lparr>isValid = False, error = Some (js ''Please enter a valid age'')\<rparr>) \<and>
   (toNumber (js ''30'') = Finite 30 \<longrightarrow>
      validate_ext toNumber (js ''age'') (js ''30'') None =
        Inr \<lparr>isValid = True, error = None\<rparr>)"
  by (simp add: validate_ext_def validate_in_def table_defs isRequired_def trim_literals)

theorem validate_age_witness:
  "validate_ext
     (\<lambda>v. if v = js ''150'' then Finite 150 else if v = js ''30'' then Finite 30 else NaN)
     (js ''age'') (js ''30'') None = Inr \<lparr>isValid = True, error = None\<rparr> \<and>
   validate_ext
     (\<lambda>v. if v = js ''150'' then Finite 150 else if v = js ''30'' then Finite 30 else NaN)
     (js ''age'') (js ''150'') None =
       Inr \<lparr>isValid = False, error = Some (js ''Please enter a valid age'')\<rparr> \<and>
   validate_ext
     (\<lambda>v. if v = js ''150'' then Finite 150 else if v = js ''30'' then Finite 30 else NaN)
     (js ''age'') (js ''abc'') None =
       Inr \<lparr>isValid = False, error = Some (js ''Please enter a valid age'')\<rparr>"
  using validate_age
    [of "\<lambda>v. if v = js ''150'' then Finite 150 else if v = js ''30'' then Finite 30 else NaN"
      "js ''30''"]
  by simp

subsection \<open>getValidationType\<close>

text \<open>
  C9: \<open>getValidationType(fieldName)\<close> returns \<open>fieldName\<close> when it is one of \<open>username\<close>,
  \<open>email\<close>, \<open>password\<close>, \<open>confirmPassword\<close> (and, in the extended variant, \<open>phone\<close>,
  \<open>address\<close>, \<open>age\<close>), and \<open>name\<close> for every other string. It returns for every string.
\<close>

theorem getValidationType_cases:
  "getValidationType fieldName =
     (if fieldName \<in> set (map js [''username'', ''email'', ''password'', ''confirmPassword''])
      then fieldName else js ''name'') \<and>
   getValidationType_ext fieldName =
     (if fieldName \<in> set (map js [''username'', ''email'', ''password'', ''confirmPassword'',
                                   ''phone'', ''address'', ''age''])
      then fieldName else js ''name'')"
  by (simp add: getValidationType_def getValidationType_ext_def)

theorem getValidationType_cases_witness:
  "getValidationType (js ''email'') = js ''email'' \<and>
   getValidationType (js ''phone'') = js ''name'' \<and>
   getValidationType_ext (js ''phone'') = js ''phone'' \<and>
   getValidationType_ext (js ''nickname'') = js ''name''"
  using getValidationType_cases [of "js ''email''"] getValidationType_cases [of "js ''phone''"]
    getValidationType_cases [of "js ''nickname''"]
  by simp

subsection \<open>isFormValid\<close>

text \<open>
  C5: \<open>isFormValid(results)\<close> is true iff every ValidationResult of the mapping has
  \<open>isValid\<close> true; it is true for the empty mapping.
\<close>

theorem isFormValid_iff:
  "(isFormValid results \<longleftrightarrow> (\<forall>(fieldName, result) \<in> set results. isValid result)) \<and>
   isFormValid [] = True"
  by (auto simp add: isFormValid_def list_all_iff)

theorem isFormValid_iff_witness:
  "isFormValid [(js ''email'', \<lparr>isValid = True, error = None\<rparr>)] \<and>
   \<not> isFormValid [(js ''email'', \<lparr>isValid = True, error = None\<rparr>),
                   (js ''username'', \<lparr>isValid = False, error = Some (js ''Username is required'')\<rparr>)]"
  using isFormValid_iff [of "[(js ''email'', \<lparr>isValid = True, error = None\<rparr>)]"]
    isFormValid_iff [of "[(js ''email'', \<lparr>isValid = True, error = None\<rparr>),
                   (js ''username'', \<lparr>isValid = False, error = Some (js ''Username is required'')\<rparr>)]"]
  by simp

subsection \<open>The results of validate and validateForm\<close>

lemma applyRules_result:
  assumes "\<forall>rule \<in> set rules. errorMessage rule \<noteq> []"
  shows "(error (applyRules rules v cv) \<noteq> None) = (\<not> isValid (applyRules rules v cv)) \<and>
         error (applyRules rules v cv) \<noteq> Some []"
  using assms by (induction rules) simp_all

lemma messages_nonempty:
  "map_of validationRules t = Some rules \<Longrightarrow> \<forall>rule \<in> set rules. errorMessage rule \<noteq> []"
  "map_of (validationRules_ext toNumber) t = Some rules \<Longrightarrow>
     \<forall>rule \<in> set rules. errorMessage rule \<noteq> []"
  by (auto simp add: validationRules_def validationRules_ext_def isRequired_def minLength_def
      isEmail_def split: if_splits)

lemma validate_in_result:
  assumes "\<And>rules. map_of table t = Some rules \<Longrightarrow> \<forall>rule \<in> set rules. errorMessage rule \<noteq> []"
    and "validate_in table t v cv = Inr r"
  shows "(error r \<noteq> None) = (\<not> isValid r) \<and> error r \<noteq> Some []"
proof (cases "map_of table t")
  case None
  with assms(2) show ?thesis
    by (auto simp add: validate_in_def getProperty_def split: if_splits)
next
  case (Some rules)
  with assms(1) have "\<forall>rule \<in> set rules. errorMessage rule \<noteq> []"
    by simp
  from applyRules_result [OF this, of v cv] Some assms(2) show ?thesis
    by (auto simp add: validate_in_def getProperty_def split: if_splits)
qed

lemma validate_result:
  "validate t v cv = Inr r \<Longrightarrow> (error r \<noteq> None) = (\<not> isValid r) \<and> error r \<noteq> Some []"
  "validate_ext toNumber t v cv = Inr r \<Longrightarrow> (error r \<noteq> None) = (\<not> isValid r) \<and> error r \<noteq> Some []"
  using validate_in_result [of validationRules t v cv r]
    validate_in_result [of "validationRules_ext toNumber" t v cv r] messages_nonempty
  by (simp_all add: validate_def validate_ext_def)

text \<open>Entries of a results object after an assignment.\<close>

lemma set_setProperty: "set (setProperty obj k v) \<subseteq> insert (k, v) (set obj)"
  by (induction obj) (auto simp add: setProperty_def)

lemma assign_entries:
  assumes "assign results k x = Inr results'"
    and "\<forall>(f, r) \<in> set results. P r"
    and "\<And>r. x = Inr r \<Longrightarrow> P r"
  shows "\<forall>(f, r) \<in> set results'. P r"
  using assms set_setProperty [of results k] 
  by (auto simp add: assign_def split: sum.splits) 

lemma andThen_Inr_iff: "andThen x f = Inr b \<longleftrightarrow> (\<exists>a. x = Inr a \<and> f a = Inr b)"
  by (cases x) (simp_all add: andThen_def)

lemma forEach_invariant:
  assumes "forEach f ks s = Inr s'"
    and "I s"
    and "\<And>k s s'. f k s = Inr s' \<Longrightarrow> I s \<Longrightarrow> I s'"
  shows "I s'"
  using assms by (induction ks arbitrary: s) (auto split: sum.splits)

lemma field_entries:
  assumes "(case map_of fd k of None \<Rightarrow> Inr results
            | Some x \<Rightarrow> assign results k (validate t x cv)) = Inr results'"
    and "\<forall>(f, r) \<in> set results. (error r \<noteq> None) = (\<not> isValid r) \<and> error r \<noteq> Some []"
  shows "\<forall>(f, r) \<in> set results'. (error r \<noteq> None) = (\<not> isValid r) \<and> error r \<noteq> Some []"
proof (cases "map_of fd k")
  case None
  with assms show ?thesis by simp
next
  case (Some x)
  with assms(1) have "assign results k (validate t x cv) = Inr results'"
    by simp
  from assign_entries [OF this assms(2)] validate_result(1) [of t x cv] show ?thesis
    by blast
qed

lemma validateForm_entries:
  assumes "validateForm fd = Inr results"
  shows "\<forall>(f, r) \<in> set results. (error r \<noteq> None) = (\<not> isValid r) \<and> error r \<noteq> Some []"
proof -
  from assms obtain r1 r2 r3 where
    s1: "(case map_of fd (js ''username'') of None \<Rightarrow> Inr []
      | Some x \<Rightarrow> assign [] (js ''username'') (validate (js ''username'') x None)) = Inr r1"
    and s2: "(case map_of fd (js ''email'') of None \<Rightarrow> Inr r1
      | Some x \<Rightarrow> assign r1 (js ''email'') (validate (js ''email'') x None)) = Inr r2"
    and s3: "(case map_of fd (js ''password'') of None \<Rightarrow> Inr r2
      | Some x \<Rightarrow> assign r2 (js ''password'') (validate (js ''password'') x None)) = Inr r3"
    and s4: "(case map_of fd (js ''confirmPassword'') of None \<Rightarrow> Inr r3
      | Some x \<Rightarrow> assign r3 (js ''confirmPassword'')
          (validate (js ''confirmPassword'') x (map_of fd (js ''password'')))) = Inr results"
    by (auto simp add: validateForm_def andThen_Inr_iff)
  have "\<forall>(f, r) \<in> set ([] :: ValidationResult object).
      (error r \<noteq> None) = (\<not> isValid r) \<and> error r \<noteq> Some []"
    by simp
  note field_entries [OF s1 this]
  note field_entries [OF s2 this]
  note field_entries [OF s3 this]
  then show ?thesis
    by (rule field_entries [OF s4])
qed

lemma validateForm_ext_entries:
  assumes "validateForm_ext toNumber fd = Inr results"
  shows "\<forall>(f, r) \<in> set results. (error r \<noteq> None) = (\<not> isValid r) \<and> error r \<noteq> Some []"
proof (rule forEach_invariant [OF assms [unfolded validateForm_ext_def]])
  show "\<forall>(f, r) \<in> set []. (error r \<noteq> None) = (\<not> isValid r) \<and> error r \<noteq> Some []"
    by simp
next
  fix k s s'
  assume step: "(let type = getValidationType_ext k;
              compareValue =
                (if type = js ''confirmPassword'' then map_of fd (js ''password'')
                 else None)
          in case map_of fd k of
               None \<Rightarrow> Inl TypeError
             | Some value \<Rightarrow> assign s k (validate_ext toNumber type value compareValue)) = Inr s'"
    and inv: "\<forall>(f, r) \<in> set s. (error r \<noteq> None) = (\<not> isValid r) \<and> error r \<noteq> Some []"
  from step obtain x cv where "assign s k (validate_ext toNumber (getValidationType_ext k) x cv) = Inr s'"
    by (auto simp add: Let_def split: option.splits)
  from assign_entries [OF this inv] validate_result(2) [of toNumber "getValidationType_ext k" x cv]
  show "\<forall>(f, r) \<in> set s'. (error r \<noteq> None) = (\<not> isValid r) \<and> error r \<noteq> Some []"
    by blast
qed

text \<open>
  C10: every ValidationResult that \<open>validate\<close> returns, and so every entry of the mapping
  that \<open>validateForm\<close> returns, has an \<open>error\<close> iff \<open>isValid\<close> is false, and the error
  is a non-empty string. In both variants of the module.
\<close>

theorem result_error_iff_invalid:
  "(validate type value compareValue = Inr result \<longrightarrow>
      (error result \<noteq> None) = (\<not> isValid result) \<and> error result \<noteq> Some []) \<and>
   (validate_ext toNumber type value compareValue = Inr result \<longrightarrow>
      (error result \<noteq> None) = (\<not> isValid result) \<and> error result \<noteq> Some []) \<and>
   (validateForm formData = Inr results \<longrightarrow>
      (\<forall>(fieldName, r) \<in> set results. (error r \<noteq> None) = (\<not> isValid r) \<and> error r \<noteq> Some [])) \<and>
   (validateForm_ext toNumber formData = Inr results \<longrightarrow>
      (\<forall>(fieldName, r) \<in> set results. (error r \<noteq> None) = (\<not> isValid r) \<and> error r \<noteq> Some []))"
  using validate_result(1) [of "type" "value" compareValue result]
    validate_result(2) [of toNumber "type" "value" compareValue result]
    validateForm_entries [of formData results] validateForm_ext_entries [of toNumber formData results]
  by blast

theorem result_error_iff_invalid_witness:
  "validate (js ''username'') (js ''ab'') None =
     Inr \<lparr>isValid = False, error = Some (js ''Username must be at least 3 characters'')\<rparr> \<and>
   validateForm [(js ''username'', js ''ab'')] =
     Inr [(js ''username'',
           \<lparr>isValid = False, error = Some (js ''Username must be at least 3 characters'')\<rparr>)] \<and>
   validateForm_ext (\<lambda>v. NaN) [(js ''username'', js ''ab'')] =
     Inr [(js ''username'',
           \<lparr>isValid = False, error = Some (js ''Username must be at least 3 characters'')\<rparr>)] \<and>
   js ''Username must be at least 3 characters'' \<noteq> []"
  using result_error_iff_invalid [of "js ''username''" "js ''ab''" None
      "\<lparr>isValid = False, error = Some (js ''Username must be at least 3 characters'')\<rparr>"
      "\<lambda>v. NaN" "[(js ''username'', js ''ab'')]"
      "[(js ''username'',
           \<lparr>isValid = False, error = Some (js ''Username must be at least 3 characters'')\<rparr>)]"]
  by (simp add: validate_def validate_ext_def validate_in_def table_defs isRequired_def
      minLength_def trim_literals validateForm_def validateForm_ext_def andThen_def assign_def
      setProperty_def getValidationType_ext_def)

subsection \<open>validateForm\<close>











end
